theory Spec2Isabelle
  imports Complex_Main
begin

section \<open>Values of the vector application\<close>

text \<open>
  The application (\<^verbatim>\<open>vector.py\<close>) reads vector components from text entries, computes
  with numpy arrays and hands the results to a plot renderer and an info panel.

  Modelling decisions, valid for the whole development:
  \<^item> a Python float is a \<^typ>\<open>real\<close>: rounding, \<^verbatim>\<open>inf\<close> and \<^verbatim>\<open>nan\<close> are outside the model;
  \<^item> a one-dimensional numpy array is a \<^typ>\<open>real list\<close>;
  \<^item> a text is a \<^typ>\<open>string\<close> whose characters are the code points below 256;
  \<^item> the builtin \<^verbatim>\<open>float(text)\<close> is a parameter \<open>float_of\<close> of type
    \<^typ>\<open>string \<Rightarrow> real option\<close>, with \<open>None\<close> for \<^verbatim>\<open>ValueError\<close>; the builtin formatting of
    a float inside an f-string is a parameter \<open>repr\<close>;
  \<^item> an exception is a value \<open>Inl e\<close> of a sum type;
  \<^item> widgets are records that keep what is shown, not how it is laid out or styled.
\<close>

type_synonym vec = "real list"

type_synonym float_parser = "string \<Rightarrow> real option"

datatype error = IndexError | ValueError | DivisionByZero

text \<open>The literal \<^verbatim>\<open>1e-10\<close>, which the source writes at every comparison.\<close>

definition threshold :: real where
  "threshold = 1 / 10 ^ 10"

subsection \<open>The numpy operations in use\<close>

text \<open>\<^verbatim>\<open>np.linalg.norm(v)\<close> of a one-dimensional array: the root of the sum of the squared
  absolute values.\<close>

definition linalg_norm :: "vec \<Rightarrow> real" where
  "linalg_norm v = sqrt (sum_list (map (\<lambda>x. \<bar>x\<bar> ^ 2) v))"





text \<open>\<^verbatim>\<open>k * v\<close> with a Python float \<open>k\<close>.\<close>

definition scalar_multiply :: "real \<Rightarrow> vec \<Rightarrow> vec" where
  "scalar_multiply k v = map (\<lambda>x. k * x) v"


subsection \<open>Python builtins on texts\<close>

text \<open>The characters that \<^verbatim>\<open>str.strip()\<close> removes, among the code points below 256:
  tab to carriage return, the four separators \<open>0x1C\<close> to \<open>0x1F\<close>, the space, \<open>0x85\<close> and
  \<open>0xA0\<close>.\<close>

definition is_space :: "char \<Rightarrow> bool" where
  "is_space c = (let n = (of_char c :: nat) in
     (9 \<le> n \<and> n \<le> 13) \<or> (28 \<le> n \<and> n \<le> 32) \<or> n = 133 \<or> n = 160)"

definition strip :: "string \<Rightarrow> string" where
  "strip s = rev (dropWhile is_space (rev (dropWhile is_space s)))"

text \<open>\<^verbatim>\<open>str(n)\<close> of an integer: the decimal digits, with a minus sign when negative.\<close>

fun digits :: "nat \<Rightarrow> string" where
  "digits n = (if n < 10 then [''0123456789'' ! n]
               else digits (n div 10) @ [''0123456789'' ! (n mod 10)])"

definition py_str :: "int \<Rightarrow> string" where
  "py_str i = (if i < 0 then CHR ''-'' # digits (nat (- i)) else digits (nat i))"

text \<open>An instance of the parameter \<open>float_of\<close>, for running the model on concrete texts.
  It agrees with \<^verbatim>\<open>float()\<close> on optionally signed decimal integer literals, also when
  surrounded by whitespace, and rejects every other text; Python accepts more (fractions,
  exponents, underscores, \<^verbatim>\<open>inf\<close>, \<^verbatim>\<open>nan\<close>).\<close>

definition digit_value :: "char \<Rightarrow> nat option" where
  "digit_value c = (let n = (of_char c :: nat) in
     if 48 \<le> n \<and> n \<le> 57 then Some (n - 48) else None)"

fun digits_value :: "string \<Rightarrow> nat \<Rightarrow> nat option" where
  "digits_value [] acc = Some acc"
| "digits_value (c # cs) acc =
     (case digit_value c of None \<Rightarrow> None | Some d \<Rightarrow> digits_value cs (10 * acc + d))"

definition float_of_integer_literal :: float_parser where
  "float_of_integer_literal s =
     (case strip s of
        [] \<Rightarrow> None
      | c # cs \<Rightarrow>
          if c = CHR ''-'' then
            (if cs = [] then None else map_option (\<lambda>n. - real n) (digits_value cs 0))
          else if c = CHR ''+'' then
            (if cs = [] then None else map_option real (digits_value cs 0))
          else map_option real (digits_value (c # cs) 0))"

section \<open>VectorInput: the form-to-vector reader\<close>

text \<open>The widget keeps its entries in creation order; an entry is the text it holds.\<close>

record vector_input =
  entries :: "string list"

text \<open>\<^verbatim>\<open>create_widgets\<close> appends one entry per pair of \<^verbatim>\<open>zip(["X", "Y", "Z"], defaults)\<close>,
  holding \<^verbatim>\<open>str(val)\<close>.\<close>

fun create_entries :: "(string \<times> int) list \<Rightarrow> string list \<Rightarrow> string list" where
  "create_entries [] es = es"
| "create_entries ((name, val) # rest) es = create_entries rest (es @ [py_str val])"

definition create_widgets :: "string \<Rightarrow> int list \<Rightarrow> vector_input \<Rightarrow> vector_input" where
  "create_widgets label defaults w =
     w\<lparr>entries := create_entries (zip [''X'', ''Y'', ''Z''] defaults) (entries w)\<rparr>"

text \<open>\<^verbatim>\<open>__init__\<close>: an empty entry list, then \<^verbatim>\<open>create_widgets\<close>.\<close>

definition VectorInput :: "string \<Rightarrow> int list \<Rightarrow> vector_input" where
  "VectorInput label default_values = create_widgets label default_values \<lparr>entries = []\<rparr>"

text \<open>The body of the loop of \<^verbatim>\<open>get_vector\<close>: the component read from one entry.\<close>

definition component :: "float_parser \<Rightarrow> string \<Rightarrow> real" where
  "component float_of e =
     (let v = strip e in
      if v = [] \<or> v = ''-'' then 0
      else (case float_of v of Some x \<Rightarrow> x | None \<Rightarrow> 0))"

fun get_vector_loop :: "float_parser \<Rightarrow> string list \<Rightarrow> vec \<Rightarrow> vec" where
  "get_vector_loop float_of [] vec = vec"
| "get_vector_loop float_of (e # es) vec =
     get_vector_loop float_of es (vec @ [component float_of e])"

definition get_vector :: "float_parser \<Rightarrow> vector_input \<Rightarrow> vec" where
  "get_vector float_of w = get_vector_loop float_of (entries w) []"

text \<open>\<^verbatim>\<open>reset\<close>: every entry is emptied and filled with the text \<^verbatim>\<open>0\<close>.\<close>

definition reset :: "vector_input \<Rightarrow> vector_input" where
  "reset w = w\<lparr>entries := map (\<lambda>e. ''0'') (entries w)\<rparr>"

section \<open>PlotManager: the plot renderer\<close>

text \<open>What an axes object has been told to draw, in call order. A quiver keeps its
  tail, its components, its colour and its label; a text keeps its position, the label
  and the coordinates it prints, and its colour. The two-decimal formatting of the
  coordinates is not modelled: the text keeps the numbers.\<close>

datatype artist =
    Scatter vec string
  | AxHLine real
  | AxVLine real
  | Quiver vec vec string string
  | Text vec string vec string

datatype projection = Rectilinear | Projection3D

record axes =
  projection :: projection
  axis_limits :: "(real \<times> real) list"
  axis_labels :: "string list"
  artists :: "artist list"
  ax_title :: string
  legend :: bool

text \<open>\<^verbatim>\<open>fig.add_subplot(111)\<close> and \<^verbatim>\<open>fig.add_subplot(111, projection='3d')\<close>.\<close>

definition add_subplot :: "projection \<Rightarrow> axes" where
  "add_subplot p =
     \<lparr>projection = p, axis_limits = [], axis_labels = [], artists = [], ax_title = [],
      legend = False\<rparr>"

record figure =
  figsize :: "nat \<times> nat"
  fig_axes :: axes

text \<open>A lesson tab, as far as the renderer writes to it: the canvas with its figure and
  whether a live toolbar exists. The container and the frame around them hold nothing
  else and are not modelled.\<close>

record tab =
  canvas_widget :: "figure option"
  toolbar :: bool

definition PRIMARY_BLUE :: string where "PRIMARY_BLUE = ''#2b7be9''"
definition PRIMARY_RED :: string where "PRIMARY_RED = ''#e24b4b''"
definition PRIMARY_GREEN :: string where "PRIMARY_GREEN = ''#26a653''"

text \<open>\<^verbatim>\<open>clear_plot\<close> destroys the widgets of the previous plot.\<close>

definition clear_plot :: "tab \<Rightarrow> tab" where
  "clear_plot t = t\<lparr>canvas_widget := None, toolbar := False\<rparr>"

text \<open>The loop of \<^verbatim>\<open>setup_3d_plot\<close> over \<^verbatim>\<open>zip(vectors, colors, labels)\<close>. Reading
  \<^verbatim>\<open>vec[2]\<close> of a shorter array raises \<^verbatim>\<open>IndexError\<close>.\<close>

fun quiver_loop_3d :: "real \<Rightarrow> (vec \<times> string \<times> string) list \<Rightarrow> axes \<Rightarrow> error + axes" where
  "quiver_loop_3d offset [] ax = Inr ax"
| "quiver_loop_3d offset ((vec, color, label) # rest) ax =
     (if linalg_norm vec > threshold then
        (if length vec < 3 then Inl IndexError
         else quiver_loop_3d offset rest
           (ax\<lparr>artists := artists ax @
              [Quiver [0, 0, 0] [vec ! 0, vec ! 1, vec ! 2] color label,
               Text [vec ! 0 + offset, vec ! 1 + offset, vec ! 2 + offset] label
                 [vec ! 0, vec ! 1, vec ! 2] color]\<rparr>))
      else quiver_loop_3d offset rest ax)"

definition setup_3d_plot ::
  "axes \<Rightarrow> vec list \<Rightarrow> string list \<Rightarrow> string list \<Rightarrow> real \<Rightarrow> error + axes" where
  "setup_3d_plot ax vectors colors labels limits =
     quiver_loop_3d (limits * (5 / 100)) (zip vectors (zip colors labels))
       (ax\<lparr>axis_limits := [(- limits, limits), (- limits, limits), (- limits, limits)],
           axis_labels := [''X'', ''Y'', ''Z''],
           artists := artists ax @ [Scatter [0, 0, 0] ''Origin'']\<rparr>)"

text \<open>The loop of \<^verbatim>\<open>setup_2d_plot\<close>. The slice \<^verbatim>\<open>vec[:2]\<close> never raises; reading
  \<^verbatim>\<open>vec[1]\<close> of a shorter array does.\<close>

fun quiver_loop_2d :: "real \<Rightarrow> (vec \<times> string \<times> string) list \<Rightarrow> axes \<Rightarrow> error + axes" where
  "quiver_loop_2d offset [] ax = Inr ax"
| "quiver_loop_2d offset ((vec, color, label) # rest) ax =
     (if linalg_norm (take 2 vec) > threshold then
        (if length vec < 2 then Inl IndexError
         else quiver_loop_2d offset rest
           (ax\<lparr>artists := artists ax @
              [Quiver [0, 0] [vec ! 0, vec ! 1] color label,
               Text [vec ! 0 + offset, vec ! 1 + offset] label [vec ! 0, vec ! 1] color]\<rparr>))
      else quiver_loop_2d offset rest ax)"

definition setup_2d_plot ::
  "axes \<Rightarrow> vec list \<Rightarrow> string list \<Rightarrow> string list \<Rightarrow> real \<Rightarrow> error + axes" where
  "setup_2d_plot ax vectors colors labels limits =
     quiver_loop_2d (limits * (5 / 100)) (zip vectors (zip colors labels))
       (ax\<lparr>axis_limits := [(- limits, limits), (- limits, limits)],
           axis_labels := [''X'', ''Y''],
           artists := artists ax @ [Scatter [0, 0] ''Origin'', AxHLine 0, AxVLine 0]\<rparr>)"

text \<open>\<^verbatim>\<open>any(abs(vec[2]) > 1e-10 for vec in vectors if len(vec) >= 3)\<close>.\<close>

definition needs_3d :: "vec list \<Rightarrow> bool" where
  "needs_3d vectors =
     list_ex (\<lambda>vec. \<bar>vec ! 2\<bar> > threshold) (filter (\<lambda>vec. length vec \<ge> 3) vectors)"

text \<open>\<^verbatim>\<open>plot_vectors\<close>: clear the tab, choose the projection and the figure size, set the
  axes up, then title, legend, canvas and toolbar. An exception of the setup leaves the
  handler; the model then returns the error alone.\<close>

definition plot_vectors ::
  "tab \<Rightarrow> vec list \<Rightarrow> string list \<Rightarrow> string list \<Rightarrow> string \<Rightarrow> real \<Rightarrow> bool \<Rightarrow> error + tab" where
  "plot_vectors t vectors colors labels title limits show_toolbar =
     (let t1 = clear_plot t;
          fig_width = (if needs_3d vectors then 8 else 7);
          fig_height = (if needs_3d vectors then 6 else 5);
          r = (if needs_3d vectors
               then setup_3d_plot (add_subplot Projection3D) vectors colors labels limits
               else setup_2d_plot (add_subplot Rectilinear) vectors colors labels limits)
      in case r of
           Inl e \<Rightarrow> Inl e
         | Inr ax \<Rightarrow>
             Inr (t1\<lparr>canvas_widget :=
                       Some \<lparr>figsize = (fig_width, fig_height),
                             fig_axes = ax\<lparr>ax_title := title, legend := (length vectors > 1)\<rparr>\<rparr>,
                     toolbar := show_toolbar\<rparr>))"

section \<open>The lesson panels\<close>

text \<open>An info panel keeps the numbers it prints. Each \<^verbatim>\<open>show_info\<close> prints the
  components 0, 1 and 2 of its vectors, so a shorter vector raises \<^verbatim>\<open>IndexError\<close>.\<close>

datatype info_panel =
    BasicsInfo vec real
  | AddSubInfo vec vec vec string
  | ScalingInfo vec real vec
  | MagnitudeInfo vec real vec

definition shown :: "vec \<Rightarrow> error + vec" where
  "shown v = (if length v < 3 then Inl IndexError else Inr [v ! 0, v ! 1, v ! 2])"

subsection \<open>VectorBasicsLesson\<close>




subsection \<open>VectorAddSubLesson\<close>




subsection \<open>VectorScalingLesson\<close>

text \<open>\<^verbatim>\<open>messagebox.showerror(title, message)\<close> is an effect outside the panel; the model
  logs each dialog shown, oldest first.\<close>

record scaling_lesson =
  scaling_parent :: tab
  scaling_vector_input :: vector_input
  scalar_entry :: string
  scaling_info_frame :: "info_panel option"
  dialogs :: "(string \<times> string) list"

definition scaling_show_info ::
  "scaling_lesson \<Rightarrow> vec \<Rightarrow> real \<Rightarrow> vec \<Rightarrow> error + scaling_lesson" where
  "scaling_show_info s vec k scaled_vec =
     (case shown vec of Inl e \<Rightarrow> Inl e | Inr v \<Rightarrow>
       (case shown scaled_vec of Inl e \<Rightarrow> Inl e | Inr sv \<Rightarrow>
          Inr (s\<lparr>scaling_info_frame := Some (ScalingInfo v k sv)\<rparr>)))"

definition scaling_compute ::
  "float_parser \<Rightarrow> (real \<Rightarrow> string) \<Rightarrow> scaling_lesson \<Rightarrow> error + scaling_lesson" where
  "scaling_compute float_of repr s =
     (let vec = get_vector float_of (scaling_vector_input s) in
      case float_of (scalar_entry s) of
        None \<Rightarrow>
          Inr (s\<lparr>dialogs := dialogs s @ [(''Invalid Input'', ''Please enter a valid scalar.'')]\<rparr>)
      | Some k \<Rightarrow>
          (let scaled_vec = scalar_multiply k vec in
           case plot_vectors (scaling_parent s) [vec, scaled_vec]
                  [PRIMARY_BLUE, PRIMARY_GREEN] [''V'', repr k @ [CHR 0xB7] @ ''V'']
                  (''Vector Scaling (k='' @ repr k @ '')'') 12 True of
             Inl e \<Rightarrow> Inl e
           | Inr t \<Rightarrow> scaling_show_info (s\<lparr>scaling_parent := t\<rparr>) vec k scaled_vec))"

subsection \<open>VectorMagnitudeLesson\<close>





section \<open>Auxiliary facts\<close>

subsection \<open>The reader\<close>

lemma get_vector_loop_map:
  "get_vector_loop float_of es vec = vec @ map (component float_of) es"
  by (induction es arbitrary: vec) simp_all

lemma get_vector_map:
  "get_vector float_of w = map (component float_of) (entries w)"
  by (simp add: get_vector_def get_vector_loop_map)

lemma length_get_vector:
  "length (get_vector float_of w) = length (entries w)"
  by (simp add: get_vector_map)

subsection \<open>Norm, loops of the renderer\<close>



lemma length_three_cases: "length xs = 3 \<Longrightarrow> \<exists>x y z. xs = [x, y, z]"
  by (cases xs; simp; cases "tl xs"; simp; cases "tl (tl xs)"; simp)

lemma quiver_loop_3d_Inr:
  "\<forall>z\<in>set zs. 3 \<le> length (fst z) \<Longrightarrow>
   quiver_loop_3d offset zs ax =
     Inr (ax\<lparr>artists := artists ax @
        concat (map (\<lambda>(vec, color, label).
                  [Quiver [0, 0, 0] [vec ! 0, vec ! 1, vec ! 2] color label,
                   Text [vec ! 0 + offset, vec ! 1 + offset, vec ! 2 + offset] label
                     [vec ! 0, vec ! 1, vec ! 2] color])
          (filter (\<lambda>(vec, color, label). linalg_norm vec > threshold) zs))\<rparr>)"
proof (induction zs arbitrary: ax)
  case Nil
  show ?case by simp
next
  case (Cons z zs)
  obtain vec color label where z: "z = (vec, color, label)" by (cases z) auto
  from Cons.prems have len: "3 \<le> length vec" and rest: "\<forall>z\<in>set zs. 3 \<le> length (fst z)"
    by (simp_all add: z)
  from len have nlt: "\<not> length vec < 3" by simp
  show ?case
    by (simp add: z Cons.IH [OF rest] nlt)
qed

lemma quiver_loop_2d_Inr:
  "\<forall>z\<in>set zs. 2 \<le> length (fst z) \<Longrightarrow>
   quiver_loop_2d offset zs ax =
     Inr (ax\<lparr>artists := artists ax @
        concat (map (\<lambda>(vec, color, label).
                  [Quiver [0, 0] [vec ! 0, vec ! 1] color label,
                   Text [vec ! 0 + offset, vec ! 1 + offset] label [vec ! 0, vec ! 1] color])
          (filter (\<lambda>(vec, color, label). linalg_norm (take 2 vec) > threshold) zs))\<rparr>)"
proof (induction zs arbitrary: ax)
  case Nil
  show ?case by simp
next
  case (Cons z zs)
  obtain vec color label where z: "z = (vec, color, label)" by (cases z) auto
  from Cons.prems have len: "2 \<le> length vec" and rest: "\<forall>z\<in>set zs. 2 \<le> length (fst z)"
    by (simp_all add: z)
  from len have nlt: "\<not> length vec < 2" by simp
  show ?case
    by (simp add: z Cons.IH [OF rest] nlt)
qed

lemma quiver_loop_3d_projection:
  "quiver_loop_3d offset zs ax = Inr ax' \<Longrightarrow> projection ax' = projection ax"
proof (induction zs arbitrary: ax)
  case Nil
  then show ?case by auto
next
  case (Cons z zs)
  obtain vec color label where z: "z = (vec, color, label)" by (cases z) auto
  from Cons.prems Cons.IH show ?case
    by (fastforce simp: z split: if_splits)
qed

lemma quiver_loop_2d_projection:
  "quiver_loop_2d offset zs ax = Inr ax' \<Longrightarrow> projection ax' = projection ax"
proof (induction zs arbitrary: ax)
  case Nil
  then show ?case by auto
next
  case (Cons z zs)
  obtain vec color label where z: "z = (vec, color, label)" by (cases z) auto
  from Cons.prems Cons.IH show ?case
    by (fastforce simp: z split: if_splits)
qed


lemma needs_3d_iff:
  "needs_3d vectors \<longleftrightarrow> (\<exists>vec\<in>set vectors. 3 \<le> length vec \<and> threshold < \<bar>vec ! 2\<bar>)"
  by (auto simp: needs_3d_def list_ex_iff)

lemma setup_3d_plot_Inr:
  "\<forall>vec\<in>set vectors. 3 \<le> length vec \<Longrightarrow>
   \<exists>ax'. setup_3d_plot ax vectors colors labels limits = Inr ax'"
  unfolding setup_3d_plot_def
  by (subst quiver_loop_3d_Inr) (auto dest: set_zip_leftD)

lemma setup_2d_plot_Inr:
  "\<forall>vec\<in>set vectors. 3 \<le> length vec \<Longrightarrow>
   \<exists>ax'. setup_2d_plot ax vectors colors labels limits = Inr ax'"
  unfolding setup_2d_plot_def
  by (subst quiver_loop_2d_Inr) (force dest: set_zip_leftD)+

lemma setup_3d_plot_projection:
  "setup_3d_plot ax vectors colors labels limits = Inr ax' \<Longrightarrow> projection ax' = projection ax"
  unfolding setup_3d_plot_def by (drule quiver_loop_3d_projection) simp

lemma setup_2d_plot_projection:
  "setup_2d_plot ax vectors colors labels limits = Inr ax' \<Longrightarrow> projection ax' = projection ax"
  unfolding setup_2d_plot_def by (drule quiver_loop_2d_projection) simp

lemma plot_vectors_Inr:
  assumes "\<forall>vec\<in>set vectors. 3 \<le> length vec"
  shows "\<exists>t'. plot_vectors t vectors colors labels title limits show_toolbar = Inr t'"
proof (cases "needs_3d vectors")
  case True
  from setup_3d_plot_Inr [OF assms] obtain ax' where
    "setup_3d_plot (add_subplot Projection3D) vectors colors labels limits = Inr ax'" by blast
  with True show ?thesis by (simp add: plot_vectors_def)
next
  case False
  from setup_2d_plot_Inr [OF assms] obtain ax' where
    "setup_2d_plot (add_subplot Rectilinear) vectors colors labels limits = Inr ax'" by blast
  with False show ?thesis by (simp add: plot_vectors_def)
qed

lemma plot_vectors_projection_Inr:
  assumes "plot_vectors t vectors colors labels title limits show_toolbar = Inr t'"
  shows "\<exists>fig. canvas_widget t' = Some fig \<and>
           projection (fig_axes fig) = (if needs_3d vectors then Projection3D else Rectilinear) \<and>
           figsize fig = (if needs_3d vectors then (8, 6) else (7, 5))"
proof (cases "needs_3d vectors")
  case True
  with assms obtain ax' where
    s: "setup_3d_plot (add_subplot Projection3D) vectors colors labels limits = Inr ax'"
    by (auto simp: plot_vectors_def split: sum.splits)
  from setup_3d_plot_projection [OF s] have "projection ax' = Projection3D"
    by (simp add: add_subplot_def)
  with assms True s show ?thesis
    by (auto simp: plot_vectors_def)
next
  case False
  with assms obtain ax' where
    s: "setup_2d_plot (add_subplot Rectilinear) vectors colors labels limits = Inr ax'"
    by (auto simp: plot_vectors_def split: sum.splits)
  from setup_2d_plot_projection [OF s] have "projection ax' = Rectilinear"
    by (simp add: add_subplot_def)
  with assms False s show ?thesis
    by (auto simp: plot_vectors_def)
qed

subsection \<open>Panels\<close>

lemma shown_three: "shown [x, y, z] = Inr [x, y, z]"
  by (simp add: shown_def)

lemma plot_vectors_three_Inr:
  "\<forall>vec\<in>set vectors. length vec = 3 \<Longrightarrow>
   \<exists>t'. plot_vectors t vectors colors labels title limits show_toolbar = Inr t'"
  by (rule plot_vectors_Inr) simp



lemma create_entries_length:
  "length (create_entries ps es) = length es + length ps"
  by (induction ps es rule: create_entries.induct) simp_all


section \<open>The form-to-vector reader\<close>

text \<open>
  Claim C1. \<^verbatim>\<open>get_vector\<close> maps the stripped text of every entry to a component: the
  component is 0 when the text is empty, is \<^verbatim>\<open>-\<close>, or does not parse as a float, and is
  the parsed value otherwise. This holds for every entry of the widget, whatever parser
  stands for \<^verbatim>\<open>float\<close>; all four lesson panels read their vectors through this function.
\<close>

theorem get_vector_components:
  "get_vector float_of w =
     map (\<lambda>e. if strip e = [] \<or> strip e = ''-'' \<or> float_of (strip e) = None then 0
               else the (float_of (strip e))) (entries w)"
  unfolding get_vector_map
  by (rule map_cong) (auto simp: component_def Let_def split: option.splits)

text \<open>
  The theorem at a padded number, a lone minus sign and an unparsable text.
\<close>

theorem get_vector_components_witness:
  "get_vector float_of_integer_literal \<lparr>entries = ['' 7 '', ''-'', ''x1'']\<rparr> = [7, 0, 0]"
  using get_vector_components [of float_of_integer_literal "\<lparr>entries = ['' 7 '', ''-'', ''x1'']\<rparr>"]
  by (simp add: float_of_integer_literal_def strip_def is_space_def digit_value_def)

text \<open>
  Claim C9. A widget created with three default values has three entries, \<^verbatim>\<open>reset\<close>
  keeps their number, and \<^verbatim>\<open>get_vector\<close> returns one component per entry: for entries
  holding any three texts it returns exactly three components, those of the X, Y and Z
  entries in that order.
\<close>

theorem get_vector_three_components:
  "length (entries (VectorInput label [d1, d2, d3])) = 3 \<and>
   length (entries (reset w)) = length (entries w) \<and>
   length (get_vector float_of w) = length (entries w) \<and>
   (entries w = [ex, ey, ez] \<longrightarrow>
      get_vector float_of w =
        [component float_of ex, component float_of ey, component float_of ez])"
  by (simp add: VectorInput_def create_widgets_def create_entries_length reset_def
      get_vector_map)

text \<open>
  The theorem at the widget of the first lesson, with defaults 3, 4 and 2.
\<close>

theorem get_vector_three_components_witness:
  "entries (VectorInput ''Enter Vector'' [3, 4, 2]) = [''3'', ''4'', ''2''] \<and>
   get_vector float_of_integer_literal (VectorInput ''Enter Vector'' [3, 4, 2]) = [3, 4, 2]"
proof -
  have e: "entries (VectorInput ''Enter Vector'' [3, 4, 2]) = [''3'', ''4'', ''2'']"
    by (simp add: VectorInput_def create_widgets_def py_str_def)
  have c: "component float_of_integer_literal ''3'' = 3"
    "component float_of_integer_literal ''4'' = 4"
    "component float_of_integer_literal ''2'' = 2"
    by (simp_all add: component_def float_of_integer_literal_def strip_def is_space_def
        digit_value_def)
  from get_vector_three_components [of "''Enter Vector''" 3 4 2
      "VectorInput ''Enter Vector'' [3, 4, 2]" float_of_integer_literal "''3''" "''4''" "''2''"] e c
  show ?thesis by simp
qed

section \<open>The plot renderer\<close>

text \<open>
  Claim C6. For every list of vectors passed to \<^verbatim>\<open>PlotManager.plot_vectors\<close>, the plot is
  created as 3D if and only if some vector of length at least 3 has a z-component whose
  absolute value exceeds the threshold \<^verbatim>\<open>1e-10\<close>; otherwise a 2D plot is created.
  The flag \<^const>\<open>needs_3d\<close> is that condition, every plot that \<^const>\<open>plot_vectors\<close>
  returns carries the projection the condition selects, and a plot is returned whenever
  all vectors have three components or more.
\<close>

theorem plot_vectors_projection:
  "(needs_3d vectors \<longleftrightarrow> (\<exists>vec\<in>set vectors. 3 \<le> length vec \<and> threshold < \<bar>vec ! 2\<bar>)) \<and>
   (\<forall>t'. plot_vectors t vectors colors labels title limits show_toolbar = Inr t' \<longrightarrow>
      (\<exists>fig. canvas_widget t' = Some fig \<and>
         projection (fig_axes fig) =
           (if \<exists>vec\<in>set vectors. 3 \<le> length vec \<and> threshold < \<bar>vec ! 2\<bar>
            then Projection3D else Rectilinear))) \<and>
   ((\<forall>vec\<in>set vectors. 3 \<le> length vec) \<longrightarrow>
      (\<exists>t'. plot_vectors t vectors colors labels title limits show_toolbar = Inr t'))"
proof (intro conjI allI impI)
  show "needs_3d vectors \<longleftrightarrow> (\<exists>vec\<in>set vectors. 3 \<le> length vec \<and> threshold < \<bar>vec ! 2\<bar>)"
    by (rule needs_3d_iff)
next
  fix t'
  assume "plot_vectors t vectors colors labels title limits show_toolbar = Inr t'"
  from plot_vectors_projection_Inr [OF this]
  show "\<exists>fig. canvas_widget t' = Some fig \<and>
         projection (fig_axes fig) =
           (if \<exists>vec\<in>set vectors. 3 \<le> length vec \<and> threshold < \<bar>vec ! 2\<bar>
            then Projection3D else Rectilinear)"
    by (simp only: needs_3d_iff) blast
next
  assume "\<forall>vec\<in>set vectors. 3 \<le> length vec"
  then show "\<exists>t'. plot_vectors t vectors colors labels title limits show_toolbar = Inr t'"
    by (rule plot_vectors_Inr)
qed

text \<open>The theorem at a list with a z-component of 2 (3D) and at a flat vector (2D).\<close>

theorem plot_vectors_projection_witness:
  "(\<exists>t' fig. plot_vectors \<lparr>canvas_widget = None, toolbar = False\<rparr> [[3, 4, 2], [1, 1, 0]]
        [PRIMARY_BLUE, PRIMARY_RED] [''A'', ''B''] ''T'' 10 True = Inr t' \<and>
      canvas_widget t' = Some fig \<and> projection (fig_axes fig) = Projection3D) \<and>
   (\<exists>t' fig. plot_vectors \<lparr>canvas_widget = None, toolbar = False\<rparr> [[3, 4, 0]]
        [PRIMARY_BLUE] [''V''] ''T'' 10 True = Inr t' \<and>
      canvas_widget t' = Some fig \<and> projection (fig_axes fig) = Rectilinear)"
proof -
  have a: "\<forall>vec\<in>set [[3, 4, 2], [1, 1, 0 :: real]]. 3 \<le> length vec" by simp
  have b: "\<forall>vec\<in>set [[3, 4, 0 :: real]]. 3 \<le> length vec" by simp
  have c: "\<exists>vec\<in>set [[3, 4, 2], [1, 1, 0 :: real]]. 3 \<le> length vec \<and> threshold < \<bar>vec ! 2\<bar>"
    by (simp add: threshold_def)
  have d: "\<not> (\<exists>vec\<in>set [[3, 4, 0 :: real]]. 3 \<le> length vec \<and> threshold < \<bar>vec ! 2\<bar>)"
    by (simp add: threshold_def)
  from plot_vectors_projection [of "[[3, 4, 2], [1, 1, 0]]"
      "\<lparr>canvas_widget = None, toolbar = False\<rparr>"
      "[PRIMARY_BLUE, PRIMARY_RED]" "[''A'', ''B'']" "''T''" 10 True] a c
  have one: "\<exists>t' fig. plot_vectors \<lparr>canvas_widget = None, toolbar = False\<rparr> [[3, 4, 2], [1, 1, 0]]
        [PRIMARY_BLUE, PRIMARY_RED] [''A'', ''B''] ''T'' 10 True = Inr t' \<and>
      canvas_widget t' = Some fig \<and> projection (fig_axes fig) = Projection3D"
    by (metis (no_types, lifting))
  from plot_vectors_projection [of "[[3, 4, 0]]" "\<lparr>canvas_widget = None, toolbar = False\<rparr>"
      "[PRIMARY_BLUE]" "[''V'']" "''T''" 10 True] b d
  have two: "\<exists>t' fig. plot_vectors \<lparr>canvas_widget = None, toolbar = False\<rparr> [[3, 4, 0]]
        [PRIMARY_BLUE] [''V''] ''T'' 10 True = Inr t' \<and>
      canvas_widget t' = Some fig \<and> projection (fig_axes fig) = Rectilinear"
    by (metis (no_types, lifting))
  from one two show ?thesis by (rule conjI)
qed




section \<open>The lesson computations\<close>









text \<open>
  Claim C8. In \<^verbatim>\<open>VectorScalingLesson.compute\<close> a scalar text that does not parse makes
  the error dialog appear; a text that parses never adds a dialog, and with a vector of
  three components the computation goes on to a new plot and a new info panel.
\<close>

theorem scaling_dialog_iff:
  "(float_of (scalar_entry s) = None \<longrightarrow>
      (\<exists>s'. scaling_compute float_of repr s = Inr s' \<and>
         dialogs s' = dialogs s @ [(''Invalid Input'', ''Please enter a valid scalar.'')])) \<and>
   (float_of (scalar_entry s) \<noteq> None \<longrightarrow>
      (\<forall>s'. scaling_compute float_of repr s = Inr s' \<longrightarrow> dialogs s' = dialogs s)) \<and>
   (float_of (scalar_entry s) \<noteq> None \<and> length (entries (scaling_vector_input s)) = 3 \<longrightarrow>
      (\<exists>s' fig info. scaling_compute float_of repr s = Inr s' \<and> dialogs s' = dialogs s \<and>
         canvas_widget (scaling_parent s') = Some fig \<and> scaling_info_frame s' = Some info))"
proof (intro conjI impI allI)
  assume "float_of (scalar_entry s) = None"
  then show "\<exists>s'. scaling_compute float_of repr s = Inr s' \<and>
      dialogs s' = dialogs s @ [(''Invalid Input'', ''Please enter a valid scalar.'')]"
    by (simp add: scaling_compute_def)
next
  fix s'
  assume "float_of (scalar_entry s) \<noteq> None"
    and "scaling_compute float_of repr s = Inr s'"
  then show "dialogs s' = dialogs s"
    by (auto simp: scaling_compute_def scaling_show_info_def Let_def
        split: option.splits sum.splits)
next
  assume a: "float_of (scalar_entry s) \<noteq> None \<and> length (entries (scaling_vector_input s)) = 3"
  then obtain k where k: "float_of (scalar_entry s) = Some k" by auto
  from a have "length (get_vector float_of (scaling_vector_input s)) = 3"
    by (simp add: length_get_vector)
  then obtain x y z where v: "get_vector float_of (scaling_vector_input s) = [x, y, z]"
    using length_three_cases by blast
  have "\<exists>t'. plot_vectors (scaling_parent s) [[x, y, z], [k * x, k * y, k * z]]
      [PRIMARY_BLUE, PRIMARY_GREEN] [''V'', repr k @ [CHR 0xB7] @ ''V'']
      (''Vector Scaling (k='' @ repr k @ '')'') 12 True = Inr t'"
    by (rule plot_vectors_three_Inr) simp
  then obtain t' where p: "plot_vectors (scaling_parent s) [[x, y, z], [k * x, k * y, k * z]]
      [PRIMARY_BLUE, PRIMARY_GREEN] [''V'', repr k @ [CHR 0xB7] @ ''V'']
      (''Vector Scaling (k='' @ repr k @ '')'') 12 True = Inr t'" ..
  from plot_vectors_projection_Inr [OF p] obtain fig where f: "canvas_widget t' = Some fig"
    by blast
  show "\<exists>s' fig info. scaling_compute float_of repr s = Inr s' \<and> dialogs s' = dialogs s \<and>
         canvas_widget (scaling_parent s') = Some fig \<and> scaling_info_frame s' = Some info"
    using p f
    by (simp add: scaling_compute_def k v scalar_multiply_def scaling_show_info_def
        shown_three Let_def)
qed

text \<open>
  The theorem at the scalar texts \<^verbatim>\<open>two\<close> (dialog) and \<^verbatim>\<open>2\<close> (no dialog, plot and
  panel).
\<close>

theorem scaling_dialog_iff_witness:
  "(\<exists>s'. scaling_compute float_of_integer_literal (\<lambda>k. ''k'')
       \<lparr>scaling_parent = \<lparr>canvas_widget = None, toolbar = False\<rparr>,
        scaling_vector_input = \<lparr>entries = [''2'', ''3'', ''1'']\<rparr>,
        scalar_entry = ''two'', scaling_info_frame = None, dialogs = []\<rparr> = Inr s' \<and>
      dialogs s' = [(''Invalid Input'', ''Please enter a valid scalar.'')]) \<and>
   (\<exists>s' fig info. scaling_compute float_of_integer_literal (\<lambda>k. ''k'')
       \<lparr>scaling_parent = \<lparr>canvas_widget = None, toolbar = False\<rparr>,
        scaling_vector_input = \<lparr>entries = [''2'', ''3'', ''1'']\<rparr>,
        scalar_entry = ''2'', scaling_info_frame = None, dialogs = []\<rparr> = Inr s' \<and>
      dialogs s' = [] \<and> canvas_widget (scaling_parent s') = Some fig \<and>
      scaling_info_frame s' = Some info)"
proof -
  have bad: "float_of_integer_literal ''two'' = None"
    by (simp add: float_of_integer_literal_def strip_def is_space_def digit_value_def)
  have good: "float_of_integer_literal ''2'' = Some 2"
    by (simp add: float_of_integer_literal_def strip_def is_space_def digit_value_def)
  from scaling_dialog_iff [of float_of_integer_literal
      "\<lparr>scaling_parent = \<lparr>canvas_widget = None, toolbar = False\<rparr>,
        scaling_vector_input = \<lparr>entries = [''2'', ''3'', ''1'']\<rparr>,
        scalar_entry = ''two'', scaling_info_frame = None, dialogs = []\<rparr>" "\<lambda>k. ''k''"] bad
  have one: "\<exists>s'. scaling_compute float_of_integer_literal (\<lambda>k. ''k'')
       \<lparr>scaling_parent = \<lparr>canvas_widget = None, toolbar = False\<rparr>,
        scaling_vector_input = \<lparr>entries = [''2'', ''3'', ''1'']\<rparr>,
        scalar_entry = ''two'', scaling_info_frame = None, dialogs = []\<rparr> = Inr s' \<and>
      dialogs s' = [(''Invalid Input'', ''Please enter a valid scalar.'')]"
    by simp
  from scaling_dialog_iff [of float_of_integer_literal
      "\<lparr>scaling_parent = \<lparr>canvas_widget = None, toolbar = False\<rparr>,
        scaling_vector_input = \<lparr>entries = [''2'', ''3'', ''1'']\<rparr>,
        scalar_entry = ''2'', scaling_info_frame = None, dialogs = []\<rparr>" "\<lambda>k. ''k''"] good
  have two: "\<exists>s' fig info. scaling_compute float_of_integer_literal (\<lambda>k. ''k'')
       \<lparr>scaling_parent = \<lparr>canvas_widget = None, toolbar = False\<rparr>,
        scaling_vector_input = \<lparr>entries = [''2'', ''3'', ''1'']\<rparr>,
        scalar_entry = ''2'', scaling_info_frame = None, dialogs = []\<rparr> = Inr s' \<and>
      dialogs s' = [] \<and> canvas_widget (scaling_parent s') = Some fig \<and>
      scaling_info_frame s' = Some info"
    by simp
  from one two show ?thesis by (rule conjI)
qed

text \<open>
  Claim C10. When the scalar text does not parse, \<^verbatim>\<open>VectorScalingLesson.compute\<close>
  returns right after the dialog: the plot of the tab, the info panel and the inputs are
  what they were, and the only change is the dialog shown.
\<close>

theorem scaling_error_state_unchanged:
  assumes "float_of (scalar_entry s) = None"
  shows "\<exists>s'. scaling_compute float_of repr s = Inr s' \<and>
           scaling_parent s' = scaling_parent s \<and>
           scaling_info_frame s' = scaling_info_frame s \<and>
           scaling_vector_input s' = scaling_vector_input s \<and>
           scalar_entry s' = scalar_entry s \<and>
           s' = s\<lparr>dialogs := dialogs s @ [(''Invalid Input'', ''Please enter a valid scalar.'')]\<rparr>"
  using assms by (simp add: scaling_compute_def)

text \<open>
  The theorem at a panel that already shows a result, with the scalar text \<^verbatim>\<open>1,5\<close>.
\<close>

theorem scaling_error_state_unchanged_witness:
  "scaling_compute float_of_integer_literal (\<lambda>k. ''k'')
       \<lparr>scaling_parent = \<lparr>canvas_widget = None, toolbar = False\<rparr>,
        scaling_vector_input = \<lparr>entries = [''2'', ''3'', ''1'']\<rparr>,
        scalar_entry = ''1,5'', scaling_info_frame = Some (ScalingInfo [2, 3, 1] 2 [4, 6, 2]),
        dialogs = []\<rparr> =
   Inr \<lparr>scaling_parent = \<lparr>canvas_widget = None, toolbar = False\<rparr>,
        scaling_vector_input = \<lparr>entries = [''2'', ''3'', ''1'']\<rparr>,
        scalar_entry = ''1,5'', scaling_info_frame = Some (ScalingInfo [2, 3, 1] 2 [4, 6, 2]),
        dialogs = [(''Invalid Input'', ''Please enter a valid scalar.'')]\<rparr>"
proof -
  have bad: "float_of_integer_literal ''1,5'' = None"
    by (simp add: float_of_integer_literal_def strip_def is_space_def digit_value_def)
  from scaling_error_state_unchanged [of float_of_integer_literal
      "\<lparr>scaling_parent = \<lparr>canvas_widget = None, toolbar = False\<rparr>,
        scaling_vector_input = \<lparr>entries = [''2'', ''3'', ''1'']\<rparr>,
        scalar_entry = ''1,5'', scaling_info_frame = Some (ScalingInfo [2, 3, 1] 2 [4, 6, 2]),
        dialogs = []\<rparr>" "\<lambda>k. ''k''"] bad
  show ?thesis by simp
qed

end
